theory Spec2Isabelle
  imports Main
begin

section \<open>Strings as Python uses them in mf.py\<close>

text \<open>
  Strings are byte strings; \<open>str.lower\<close> and \<open>str.upper\<close> are modelled on the ASCII
  letters (name-file tags, version names and package names are ASCII).
\<close>

definition upper_letters :: string where
  "upper_letters = ''ABCDEFGHIJKLMNOPQRSTUVWXYZ''"

definition lower_letters :: string where
  "lower_letters = ''abcdefghijklmnopqrstuvwxyz''"

definition lower_char :: "char \<Rightarrow> char" where
  "lower_char c = (case map_of (zip upper_letters lower_letters) c of Some d \<Rightarrow> d | None \<Rightarrow> c)"

definition upper_char :: "char \<Rightarrow> char" where
  "upper_char c = (case map_of (zip lower_letters upper_letters) c of Some d \<Rightarrow> d | None \<Rightarrow> c)"

definition lower :: "string \<Rightarrow> string" where
  "lower s = map lower_char s"

definition upper :: "string \<Rightarrow> string" where
  "upper s = map upper_char s"

text \<open>\<open>startswith p s\<close> is \<open>s.startswith(p)\<close>.\<close>

fun startswith :: "string \<Rightarrow> string \<Rightarrow> bool" where
  "startswith [] s = True"
| "startswith (p # ps) [] = False"
| "startswith (p # ps) (c # cs) = (p = c \<and> startswith ps cs)"

text \<open>\<open>str_in sub s\<close> is Python's \<open>sub in s\<close> on strings (substring test).\<close>

fun str_in :: "string \<Rightarrow> string \<Rightarrow> bool" where
  "str_in sub [] = (sub = [])"
| "str_in sub (c # cs) = (startswith sub (c # cs) \<or> str_in sub cs)"

text \<open>\<open>join sep xs\<close> is \<open>sep.join(xs)\<close>.\<close>

fun join :: "string \<Rightarrow> string list \<Rightarrow> string" where
  "join sep [] = []"
| "join sep [x] = x"
| "join sep (x # y # ys) = x @ sep @ join sep (y # ys)"

definition nl :: string where
  "nl = [CHR 0x0A]"

text \<open>Decimal digits of a natural number and \<open>str(i)\<close> of an integer.\<close>

fun str_nat :: "nat \<Rightarrow> string" where
  "str_nat n = (if n < 10 then [char_of (48 + n)]
                else str_nat (n div 10) @ [char_of (48 + n mod 10)])"

declare str_nat.simps [simp del]

definition str_int :: "int \<Rightarrow> string" where
  "str_int i = (if i < 0 then CHR ''-'' # str_nat (nat (- i)) else str_nat (nat i))"

text \<open>The format fields \<open>{:12s}\<close> (pad on the right) and \<open>{:3d}\<close> (pad on the left);
  neither truncates.\<close>

definition ljust :: "nat \<Rightarrow> string \<Rightarrow> string" where
  "ljust w s = s @ replicate (w - length s) CHR '' ''"

definition rjust :: "nat \<Rightarrow> string \<Rightarrow> string" where
  "rjust w s = replicate (w - length s) CHR '' '' @ s"

text \<open>\<open>os.path.basename\<close>, \<open>os.path.join\<close> (POSIX) and \<open>f.rpartition('.')[0]\<close>.\<close>

definition os_path_basename :: "string \<Rightarrow> string" where
  "os_path_basename p = rev (takeWhile (\<lambda>c. c \<noteq> CHR ''/'') (rev p))"

definition os_path_join :: "string \<Rightarrow> string \<Rightarrow> string" where
  "os_path_join a b =
     (if startswith ''/'' b then b
      else if a = [] \<or> last a = CHR ''/'' then a @ b
      else a @ ''/'' @ b)"

definition rpartition_head :: "string \<Rightarrow> string" where
  "rpartition_head f =
     (if CHR ''.'' \<in> set f then rev (tl (dropWhile (\<lambda>c. c \<noteq> CHR ''.'') (rev f))) else [])"

section \<open>Exceptions\<close>

text \<open>
  The exceptions the module raises or meets, each with its message.
  \<open>Exception s\<close> stands for the plain \<open>Exception(s)\<close>; \<open>BaseException s\<close> stands for an
  exception that does not derive from \<open>Exception\<close> (KeyboardInterrupt, SystemExit), which
  \<open>except Exception\<close> lets through and \<open>except BaseException\<close> catches.
\<close>

datatype error =
    Exception string
  | AttributeError string
  | AssertionError string
  | IndexError string
  | OSError string
  | ValueError string
  | BaseException string

fun is_Exception :: "error \<Rightarrow> bool" where
  "is_Exception (BaseException s) = False"
| "is_Exception e = True"

fun str_error :: "error \<Rightarrow> string" where
  "str_error (Exception s) = s"
| "str_error (AttributeError s) = s"
| "str_error (AssertionError s) = s"
| "str_error (IndexError s) = s"
| "str_error (OSError s) = s"
| "str_error (ValueError s) = s"
| "str_error (BaseException s) = s"

text \<open>The AttributeError of an attribute read on \<open>None\<close>.\<close>

definition quote :: "string \<Rightarrow> string" where
  "quote s = [CHR 0x27] @ s @ [CHR 0x27]"

definition none_has_no :: "string \<Rightarrow> error" where
  "none_has_no attr =
     AttributeError (quote ''NoneType'' @ '' object has no attribute '' @ quote attr)"

section \<open>Packages and the registry\<close>

text \<open>The package classes the registry of \<open>Modflow.__init__\<close> names (lines 148 to 178).\<close>

datatype pkg =
    ModflowZon | ModflowMlt | ModflowPval | ModflowBas | ModflowDis | ModflowBcf
  | ModflowLpf | ModflowHfb | ModflowChd | ModflowWel | ModflowDrn | ModflowRch
  | ModflowEvt | ModflowGhb | ModflowGmg | ModflowRiv | ModflowStr | ModflowSwi2
  | ModflowPcg | ModflowPcgn | ModflowNwt | ModflowPks | ModflowSfr2 | ModflowSip
  | ModflowSor | ModflowDe4 | ModflowOc | ModflowUzf1 | ModflowUpw

type_synonym registry = "(string \<times> pkg) list"

definition mfnam_packages_literal :: registry where
  "mfnam_packages_literal =
     [(''zone'', ModflowZon), (''mult'', ModflowMlt), (''pval'', ModflowPval),
      (''bas6'', ModflowBas), (''dis'', ModflowDis), (''bcf6'', ModflowBcf),
      (''lpf'', ModflowLpf), (''hfb6'', ModflowHfb), (''chd'', ModflowChd),
      (''wel'', ModflowWel), (''drn'', ModflowDrn), (''rch'', ModflowRch),
      (''evt'', ModflowEvt), (''ghb'', ModflowGhb), (''gmg'', ModflowGmg),
      (''riv'', ModflowRiv), (''str'', ModflowStr), (''swi2'', ModflowSwi2),
      (''pcg'', ModflowPcg), (''pcgn'', ModflowPcgn), (''nwt'', ModflowNwt),
      (''pks'', ModflowPks), (''sfr'', ModflowSfr2), (''sip'', ModflowSip),
      (''sor'', ModflowSor), (''de4'', ModflowDe4), (''oc'', ModflowOc),
      (''uzf'', ModflowUzf1), (''upw'', ModflowUpw)]"

text \<open>
  A dict literal evaluated in \<open>__init__\<close> is a new object each time. The store of dict
  objects is a list, an address is an index into it, and allocation appends.
\<close>

type_synonym heap = "registry list"

definition alloc :: "heap \<Rightarrow> registry \<Rightarrow> nat \<times> heap" where
  "alloc h d = (length h, h @ [d])"

definition deref :: "heap \<Rightarrow> nat \<Rightarrow> registry option" where
  "deref h a = (if a < length h then Some (h ! a) else None)"

definition dict_update :: "heap \<Rightarrow> nat \<Rightarrow> registry \<Rightarrow> heap" where
  "dict_update h a d = h[a := d]"

text \<open>
  A package instance as this module reads it: the parallel lists \<open>name\<close>,
  \<open>unit_number\<close>, \<open>file_name\<close> and \<open>extension\<close>, and the grid shape that the
  discretization package carries (read on that package only).
\<close>

record Package =
  name :: "string list"
  unit_number :: "int list"
  file_name :: "string list"
  extension :: "string list"
  nlay :: int
  nrow :: int
  ncol :: int
  nper :: int

text \<open>
  Modelled from the spec: \<open>Package.__init__\<close> (flopy.mbase) is not among the sources.
  A package holds one or more (name, unit, filename) triples; a new package has one,
  its file named after the model and the extension.
\<close>

definition Package_init :: "string \<Rightarrow> string \<Rightarrow> string \<Rightarrow> int \<Rightarrow> Package" where
  "Package_init parent_name ext nm u =
     \<lparr> name = [nm], unit_number = [u], file_name = [parent_name @ ''.'' @ ext],
       extension = [ext], nlay = 0, nrow = 0, ncol = 0, nper = 0 \<rparr>"

definition ModflowGlobal :: "string \<Rightarrow> Package" where
  "ModflowGlobal parent_name = Package_init parent_name ''glo'' ''GLOBAL'' 1"

definition ModflowList :: "string \<Rightarrow> int \<Rightarrow> Package" where
  "ModflowList parent_name unitnumber = Package_init parent_name ''list'' ''LIST'' unitnumber"

section \<open>The model\<close>

text \<open>The part of the instance that \<open>BaseModel\<close> owns and this module reads.\<close>

record basemodel =
  modelname :: string
  namefile :: string
  model_ws :: string
  exe_name :: string
  structured :: bool
  packagelist :: "Package list"
  pop_key_list :: "int list"

text \<open>
  The \<open>Modflow\<close> instance. \<open>mfnam_packages\<close> is a reference to the registry dict,
  \<open>Modflow_next_ext_unit\<close> is the private counter \<open>__next_ext_unit\<close>, \<open>load_flag\<close> is
  the attribute \<open>load\<close>. The \<open>ModflowPar\<close> object is opaque here.
\<close>

record model = basemodel +
  heading :: string
  version :: string
  glo :: "Package option"
  lst :: Package
  free_format :: bool
  array_format :: string
  external_fnames :: "string list"
  external_units :: "int list"
  external_binflag :: "bool list"
  external :: bool
  verbose :: bool
  load_flag :: bool
  Modflow_next_ext_unit :: int
  external_path :: "string option"
  silent :: int
  mfnam_packages :: nat

text \<open>
  Modelled from the spec: \<open>BaseModel.__init__\<close> (flopy.mbase) is not among the sources.
  It binds the model to its name, its name file (name, a dot, the extension), the
  workspace and the executable, with no package owned yet and an empty pop list.
\<close>

definition BaseModel_init :: "string \<Rightarrow> string \<Rightarrow> string \<Rightarrow> string \<Rightarrow> bool \<Rightarrow> basemodel" where
  "BaseModel_init mname namefile_ext exe ws struct =
     \<lparr> modelname = mname, namefile = mname @ ''.'' @ namefile_ext, model_ws = ws,
       exe_name = exe, structured = struct, packagelist = [], pop_key_list = [] \<rparr>"

text \<open>The file system as the module asks about it.\<close>

record os =
  os_path_exists :: "string \<Rightarrow> bool"
  os_path_isfile :: "string \<Rightarrow> bool"
  os_mkdir :: "string \<Rightarrow> error option"
  os_path_relpath :: "string \<Rightarrow> string \<Rightarrow> error + string"
  open_w :: "string \<Rightarrow> error option"

text \<open>The arguments of \<open>Modflow.__init__\<close>, and their defaults.\<close>

record init_args =
  arg_modelname :: string
  arg_namefile_ext :: string
  arg_version :: string
  arg_exe_name :: string
  arg_structured :: bool
  arg_listunit :: int
  arg_model_ws :: string
  arg_external_path :: "string option"
  arg_verbose :: bool
  arg_load :: bool
  arg_silent :: int

definition default_args :: init_args where
  "default_args =
     \<lparr> arg_modelname = ''modflowtest'', arg_namefile_ext = ''nam'', arg_version = ''mf2005'',
       arg_exe_name = ''mf2005.exe'', arg_structured = True, arg_listunit = 2,
       arg_model_ws = ''.'', arg_external_path = None, arg_verbose = False,
       arg_load = True, arg_silent = 0 \<rparr>"

definition structured_msg :: string where
  "structured_msg = ''structured=False can only be specified for mfusg models''"

text \<open>The block of lines 129 to 140: \<open>None\<close> when it passes, the exception otherwise.\<close>

definition external_option :: "os \<Rightarrow> string \<Rightarrow> string option \<Rightarrow> error option" where
  "external_option env ws ext_path =
     (case ext_path of
        None \<Rightarrow> None
      | Some p \<Rightarrow>
          if ws \<noteq> ''.'' then Some (AssertionError ''ERROR: external cannot be used with model_ws'')
          else if os_path_exists env p then None
          else os_mkdir env p)"

text \<open>\<open>Modflow.__init__\<close> (lines 101 to 179).\<close>

definition Modflow_init :: "os \<Rightarrow> init_args \<Rightarrow> heap \<Rightarrow> error + (model \<times> heap)" where
  "Modflow_init env a h =
     (let b = BaseModel_init (arg_modelname a) (arg_namefile_ext a) (arg_exe_name a)
                (arg_model_ws a) (arg_structured a);
          v = lower (arg_version a)
      in if \<not> structured b \<and> \<not> str_in ''mfusg'' v then Inl (AssertionError structured_msg)
         else
           (case external_option env (arg_model_ws a) (arg_external_path a) of
              Some e \<Rightarrow> Inl e
            | None \<Rightarrow>
                (let (r, h') = alloc h mfnam_packages_literal
                 in Inr
                   (\<lparr> modelname = modelname b, namefile = namefile b, model_ws = model_ws b,
                      exe_name = exe_name b, structured = structured b,
                      packagelist = packagelist b, pop_key_list = pop_key_list b,
                      heading = ''# Name file for '' @ arg_version a @ '', generated by Flopy.'',
                      version = v,
                      glo = (if v = ''mf2k'' then Some (ModflowGlobal (modelname b)) else None),
                      lst = ModflowList (modelname b) (arg_listunit a),
                      free_format = True, array_format = ''modflow'',
                      external_fnames = [], external_units = [], external_binflag = [],
                      external = (arg_external_path a \<noteq> None),
                      verbose = arg_verbose a, load_flag = arg_load a,
                      Modflow_next_ext_unit = 1000,
                      external_path = arg_external_path a, silent = arg_silent a,
                      mfnam_packages = r \<rparr>, h'))))"

text \<open>\<open>next_ext_unit\<close> (lines 185 to 191): the value returned and the instance after.\<close>

definition next_ext_unit :: "model \<Rightarrow> int \<times> model" where
  "next_ext_unit m =
     (Modflow_next_ext_unit m + 1, m\<lparr>Modflow_next_ext_unit := Modflow_next_ext_unit m + 1\<rparr>)"

text \<open>\<open>n\<close> consecutive calls: the values returned, in order, and the instance after.\<close>

fun next_ext_units :: "nat \<Rightarrow> model \<Rightarrow> int list \<times> model" where
  "next_ext_units 0 m = ([], m)"
| "next_ext_units (Suc n) m =
     (let (u, m') = next_ext_unit m; (us, m'') = next_ext_units n m' in (u # us, m''))"

text \<open>
  Modelled from the spec: \<open>BaseModel.get_package\<close> and \<open>BaseModel.__getattr__\<close>
  (flopy.mbase) are not among the sources. The model owns an ordered set of packages;
  a package is found by its tag, matched case-insensitively, and \<open>None\<close> is the answer
  when no package has it. An attribute that is not set on the instance (\<open>self.dis\<close>)
  is looked up as a package of that name.
\<close>

definition get_package :: "model \<Rightarrow> string \<Rightarrow> Package option" where
  "get_package m nm =
     find (\<lambda>pp. case name pp of [] \<Rightarrow> False | n0 # _ \<Rightarrow> upper n0 = upper nm) (packagelist m)"

definition getattr_package :: "model \<Rightarrow> string \<Rightarrow> Package option" where
  "getattr_package m item = get_package m item"

text \<open>The grid-shape properties (lines 193 to 227). A package object is true.\<close>

definition get_nlay :: "model \<Rightarrow> int" where
  "get_nlay m = (case getattr_package m ''dis'' of Some d \<Rightarrow> nlay d | None \<Rightarrow> 0)"

definition get_nrow :: "model \<Rightarrow> int" where
  "get_nrow m = (case getattr_package m ''dis'' of Some d \<Rightarrow> nrow d | None \<Rightarrow> 0)"

definition get_ncol :: "model \<Rightarrow> int" where
  "get_ncol m = (case getattr_package m ''dis'' of Some d \<Rightarrow> ncol d | None \<Rightarrow> 0)"

definition get_nper :: "model \<Rightarrow> int" where
  "get_nper m = (case getattr_package m ''dis'' of Some d \<Rightarrow> nper d | None \<Rightarrow> 0)"

definition get_nrow_ncol_nlay_nper :: "model \<Rightarrow> int \<times> int \<times> int \<times> int" where
  "get_nrow_ncol_nlay_nper m =
     (case get_package m ''DIS'' of
        Some d \<Rightarrow> (nrow d, ncol d, nlay d, nper d)
      | None \<Rightarrow> (0, 0, 0, 0))"

section \<open>Writing the name file\<close>

text \<open>\<open>'{:12s} {:3d} {}\n'.format(n, u, f)\<close>.\<close>

definition fmt_entry :: "string \<Rightarrow> int \<Rightarrow> string \<Rightarrow> string" where
  "fmt_entry n u f = ljust 12 n @ '' '' @ rjust 3 (str_int u) @ '' '' @ f @ nl"

text \<open>The line of a package's first file: \<open>name[0]\<close>, \<open>unit_number[0]\<close>, \<open>file_name[0]\<close>.\<close>

definition first_entry :: "Package \<Rightarrow> error + string" where
  "first_entry p =
     (case (name p, unit_number p, file_name p) of
        (n # _, u # _, f # _) \<Rightarrow> Inr (fmt_entry n u f)
      | _ \<Rightarrow> Inl (IndexError ''list index out of range''))"

text \<open>
  Modelled from the spec: \<open>BaseModel.get_name_file_entries\<close> (flopy.mbase) is not among
  the sources. One line per owned package file entry, in the format 12-character
  left-justified name, 3-digit right-justified unit, filename.
\<close>

definition package_entries :: "Package \<Rightarrow> string" where
  "package_entries p =
     concat (map (\<lambda>(n, u, f). fmt_entry n u f) (zip (name p) (zip (unit_number p) (file_name p))))"

definition get_name_file_entries :: "model \<Rightarrow> string" where
  "get_name_file_entries m = concat (map package_entries (packagelist m))"

text \<open>The two lines an external entry can give (lines 269 and 271).\<close>

definition data_line :: "int \<Rightarrow> string \<Rightarrow> bool \<Rightarrow> string" where
  "data_line u fr b =
     (if b then ''DATA(BINARY)  '' @ rjust 3 (str_int u) @ ''  '' @ fr @ '' REPLACE'' @ nl
      else ''DATA          '' @ rjust 3 (str_int u) @ ''  '' @ fr @ nl)"

text \<open>The loop of lines 264 to 271 over the zipped external lists, appending to the
  text written so far.\<close>

fun write_externals :: "os \<Rightarrow> string \<Rightarrow> (int \<times> string \<times> bool) list \<Rightarrow> string \<Rightarrow> error + string" where
  "write_externals env ws [] buf = Inr buf"
| "write_externals env ws ((u, f, b) # rest) buf =
     (if u = 0 then write_externals env ws rest buf
      else
        (case os_path_relpath env f ws of
           Inl e \<Rightarrow> Inl e
         | Inr fr \<Rightarrow> write_externals env ws rest (buf @ data_line u fr b)))"

definition externals :: "model \<Rightarrow> (int \<times> string \<times> bool) list" where
  "externals m = zip (external_units m) (zip (external_fnames m) (external_binflag m))"

text \<open>\<open>write_name_file\<close> (lines 253 to 273): the text of the name file when the call
  returns, the exception when it raises.\<close>

definition write_name_file :: "os \<Rightarrow> model \<Rightarrow> error + string" where
  "write_name_file env m =
     (case open_w env (os_path_join (model_ws m) (namefile m)) of
        Some e \<Rightarrow> Inl e
      | None \<Rightarrow>
          (case (if version m = ''mf2k''
                 then (case glo m of
                         None \<Rightarrow> Inl (none_has_no ''name'')
                       | Some g \<Rightarrow> first_entry g)
                 else Inr [])
           of
             Inl e \<Rightarrow> Inl e
           | Inr glo_line \<Rightarrow>
               (case first_entry (lst m) of
                  Inl e \<Rightarrow> Inl e
                | Inr lst_line \<Rightarrow>
                    write_externals env (model_ws m) (externals m)
                      (heading m @ nl @ glo_line @ lst_line @ get_name_file_entries m))))"

text \<open>
  The layout in the words of the specification, for comparison. \<open>relpath_of\<close> is the
  filename relative to the workspace. \<open>claimed_name_file\<close> has one data line for every
  external entry; \<open>spec_name_file\<close> has one for every external entry whose unit is not 0.
\<close>

definition relpath_of :: "os \<Rightarrow> string \<Rightarrow> string \<Rightarrow> string" where
  "relpath_of env ws f = (case os_path_relpath env f ws of Inr fr \<Rightarrow> fr | Inl e \<Rightarrow> [])"

definition entry_line :: "Package \<Rightarrow> string" where
  "entry_line p = fmt_entry (hd (name p)) (hd (unit_number p)) (hd (file_name p))"

definition name_file_head :: "model \<Rightarrow> string" where
  "name_file_head m =
     heading m @ nl
     @ (if version m = ''mf2k'' then entry_line (the (glo m)) else [])
     @ entry_line (lst m)
     @ get_name_file_entries m"

definition claimed_name_file :: "os \<Rightarrow> model \<Rightarrow> string" where
  "claimed_name_file env m =
     name_file_head m
     @ concat (map (\<lambda>(u, f, b). data_line u (relpath_of env (model_ws m) f) b) (externals m))"

definition spec_name_file :: "os \<Rightarrow> model \<Rightarrow> string" where
  "spec_name_file env m =
     name_file_head m
     @ concat (map (\<lambda>(u, f, b). data_line u (relpath_of env (model_ws m) f) b)
                 (filter (\<lambda>(u, f, b). u \<noteq> 0) (externals m)))"

section \<open>Loading a model\<close>

text \<open>
  An entry of the unit table that \<open>mfreadnam.parsenamefile\<close> returns, as \<open>load\<close> reads
  it: the tag, the file name, and the package class the registry resolved the tag to
  (\<open>None\<close> when it is unrecognized). The table is keyed by unit number and iterated in
  order.
\<close>

record namdata =
  filetype :: string
  filename :: string
  package :: "pkg option"

type_synonym unit_table = "(int \<times> namdata) list"

text \<open>\<open>d.pop(key)\<close> for a key of the dict, and the test \<open>key in d\<close>.\<close>

definition dict_pop :: "int \<Rightarrow> unit_table \<Rightarrow> unit_table" where
  "dict_pop key tbl = filter (\<lambda>(k, item). k \<noteq> key) tbl"


text \<open>The collaborators \<open>load\<close> invokes, in the order it invokes them.\<close>

datatype call = Load pkg string | Set_pval | Set_zone | Set_mult

text \<open>
  The collaborators that are not among the sources, as parameters: the name-file
  parser (given the path and the registry), the loader of each package class (given
  the file name, the model and the table; it answers with the exception it raised, if
  any, and the model as it left it), and the three parameter steps of \<open>ModflowPar\<close>
  (each may change the model and the table, or raise). A loader reads the table and
  leaves its keys as they are. Writes to standard output are not modelled.
\<close>

record collab =
  parsenamefile :: "string \<Rightarrow> registry \<Rightarrow> error + unit_table"
  package_load :: "pkg \<Rightarrow> string \<Rightarrow> model \<Rightarrow> unit_table \<Rightarrow> error option \<times> model"
  set_pval :: "model \<Rightarrow> unit_table \<Rightarrow> error + (model \<times> unit_table)"
  set_zone :: "model \<Rightarrow> unit_table \<Rightarrow> error + (model \<times> unit_table)"
  set_mult :: "model \<Rightarrow> unit_table \<Rightarrow> error + (model \<times> unit_table)"

text \<open>The local state of \<open>load\<close>, with the dict store and the calls made so far.\<close>

record load_state =
  ml :: model
  ext_unit_dict :: unit_table
  files_succesfully_loaded :: "string list"
  files_not_loaded :: "string list"
  calls :: "call list"
  store :: heap

text \<open>\<open>Raises e cs\<close>: the call raises \<open>e\<close>, having invoked \<open>cs\<close>. \<open>Returns st\<close>: the
  call returns \<open>ml st\<close>, \<open>st\<close> being its local state at the \<open>return\<close>.\<close>

datatype load_outcome = Raises error "call list" | Returns load_state

definition could_not_read :: "namdata \<Rightarrow> string" where
  "could_not_read dis =
     ''Could not read discretization package: '' @ os_path_basename (filename dis)
     @ ''. Stopping...''"

text \<open>The search of lines 387 to 393: the first entry whose tag, lowered, is \<open>dis\<close>.\<close>

definition find_dis :: "unit_table \<Rightarrow> (int \<times> namdata) option" where
  "find_dis tbl = find (\<lambda>(key, item). lower (filetype item) = ''dis'') tbl"

text \<open>
  Lines 394 to 405. With no entry found, \<open>dis\<close> is \<open>None\<close>: the \<open>try\<close> block raises an
  AttributeError, and so does the handler when it reads \<open>dis.filename\<close>.
\<close>

definition load_dis :: "collab \<Rightarrow> load_state \<Rightarrow> load_outcome" where
  "load_dis c st =
     (case find_dis (ext_unit_dict st) of
        None \<Rightarrow> Raises (none_has_no ''filename'') (calls st)
      | Some (dis_key, dis) \<Rightarrow>
          (case package dis of
             None \<Rightarrow>
               Raises (Exception (could_not_read dis @ '' '' @ str_error (none_has_no ''load'')))
                 (calls st)
           | Some p \<Rightarrow>
               (let (r, ml') = package_load c p (filename dis) (ml st) (ext_unit_dict st);
                    cs = calls st @ [Load p (filename dis)]
                in case r of
                     Some e \<Rightarrow>
                       if is_Exception e
                       then Raises (Exception (could_not_read dis @ '' '' @ str_error e)) cs
                       else Raises e cs
                   | None \<Rightarrow>
                       Returns (st\<lparr> ml := ml', calls := cs,
                         files_succesfully_loaded := files_succesfully_loaded st @ [filename dis],
                         ext_unit_dict := dict_pop dis_key (ext_unit_dict st) \<rparr>))))"

text \<open>The argument \<open>load_only\<close>: a single string or a list of strings.\<close>

datatype load_only_arg = One string | Listed "string list"

text \<open>The loop of lines 415 to 425: the list \<open>load_only\<close> as updated in place, and
  \<open>not_found\<close>.\<close>

fun check_load_only :: "string list \<Rightarrow> unit_table \<Rightarrow> string list \<times> string list" where
  "check_load_only [] tbl = ([], [])"
| "check_load_only (ft # rest) tbl =
     (let FT = upper ft; (lo, not_found) = check_load_only rest tbl
      in if FT \<noteq> ''DIS''
         then (FT # lo,
               if list_ex (\<lambda>(key, item). filetype item = FT) tbl then not_found
               else FT # not_found)
         else (ft # lo, not_found))"

definition not_found_msg :: "string list \<Rightarrow> string" where
  "not_found_msg not_found =
     ''the following load_only entries were not found in the ext_unit_dict: ''
     @ join '','' not_found"

text \<open>Lines 407 to 428.\<close>

definition resolve_load_only :: "load_only_arg option \<Rightarrow> unit_table \<Rightarrow> error + string list" where
  "resolve_load_only load_only tbl =
     (case load_only of
        None \<Rightarrow> Inr (map (\<lambda>(key, item). filetype item) tbl)
      | Some a \<Rightarrow>
          (let (lo, not_found) =
                 check_load_only (case a of One s \<Rightarrow> [s] | Listed l \<Rightarrow> l) tbl
           in if length not_found > 0 then Inl (Exception (not_found_msg not_found))
              else Inr lo))"

text \<open>Lines 432 to 434: one parameter step, and the three in order.\<close>

definition set_par ::
  "call \<Rightarrow> (model \<Rightarrow> unit_table \<Rightarrow> error + (model \<times> unit_table)) \<Rightarrow> load_state \<Rightarrow> load_outcome" where
  "set_par cl step st =
     (case step (ml st) (ext_unit_dict st) of
        Inl e \<Rightarrow> Raises e (calls st @ [cl])
      | Inr (m', tbl') \<Rightarrow> Returns (st\<lparr> ml := m', ext_unit_dict := tbl', calls := calls st @ [cl] \<rparr>))"

definition set_parameters :: "collab \<Rightarrow> load_state \<Rightarrow> load_outcome" where
  "set_parameters c st =
     (case set_par Set_pval (set_pval c) st of
        Raises e cs \<Rightarrow> Raises e cs
      | Returns st1 \<Rightarrow>
          (case set_par Set_zone (set_zone c) st1 of
             Raises e cs \<Rightarrow> Raises e cs
           | Returns st2 \<Rightarrow> set_par Set_mult (set_mult c) st2))"

text \<open>Lines 468 to 471: the three appends that register an external file.\<close>

definition add_external :: "model \<Rightarrow> string \<Rightarrow> int \<Rightarrow> bool \<Rightarrow> model" where
  "add_external m fname u b =
     m\<lparr> external_fnames := external_fnames m @ [fname],
        external_units := external_units m @ [u],
        external_binflag := external_binflag m @ [b] \<rparr>"

text \<open>The body of the loop of lines 437 to 471, for one entry.\<close>

definition load_package :: "collab \<Rightarrow> string list \<Rightarrow> int \<times> namdata \<Rightarrow> load_state \<Rightarrow> load_state" where
  "load_package c load_only entry st =
     (case entry of (key, item) \<Rightarrow>
        (case package item of
           Some p \<Rightarrow>
             if filetype item \<in> set load_only
             then
               (let (r, ml') = package_load c p (filename item) (ml st) (ext_unit_dict st);
                    st' = st\<lparr> ml := ml', calls := calls st @ [Load p (filename item)] \<rparr>
                in case r of
                     None \<Rightarrow>
                       st'\<lparr> files_succesfully_loaded :=
                              files_succesfully_loaded st @ [filename item] \<rparr>
                   | Some e \<Rightarrow> st'\<lparr> files_not_loaded := files_not_loaded st @ [filename item] \<rparr>)
             else st\<lparr> files_not_loaded := files_not_loaded st @ [filename item] \<rparr>
         | None \<Rightarrow>
             if \<not> str_in ''data'' (lower (filetype item))
             then st\<lparr> files_not_loaded := files_not_loaded st @ [filename item] \<rparr>
             else if str_in ''data'' (lower (filetype item))
             then
               (if key \<notin> set (pop_key_list (ml st))
                then st\<lparr> ml := add_external (ml st) (filename item) key
                                (str_in ''binary'' (lower (filetype item))) \<rparr>
                else st)
             else st))"

text \<open>The loop itself, over the entries of the table in order.\<close>

fun load_packages :: "collab \<Rightarrow> string list \<Rightarrow> unit_table \<Rightarrow> load_state \<Rightarrow> load_state" where
  "load_packages c load_only [] st = st"
| "load_packages c load_only (entry # rest) st =
     load_packages c load_only rest (load_package c load_only entry st)"

text \<open>
  Modelled from the spec: \<open>BaseModel.remove_external\<close> (flopy.mbase) is not among the
  sources. It removes any external-file entry of the given unit.
\<close>

definition remove_external :: "model \<Rightarrow> int \<Rightarrow> model" where
  "remove_external m u =
     (let keep = filter (\<lambda>(u', f, b). u' \<noteq> u) (externals m)
      in m\<lparr> external_units := map fst keep,
            external_fnames := map (\<lambda>(u', f, b). f) keep,
            external_binflag := map (\<lambda>(u', f, b). b) keep \<rparr>)"

text \<open>Lines 475 to 482: for every key of the pop list, the external entry and the table
  entry go; a key the table does not have raises inside the \<open>try\<close> and is passed over.\<close>

definition pop_key :: "int \<Rightarrow> load_state \<Rightarrow> load_state" where
  "pop_key key st =
     st\<lparr> ml := remove_external (ml st) key, ext_unit_dict := dict_pop key (ext_unit_dict st) \<rparr>"

definition pop_keys :: "load_state \<Rightarrow> load_state" where
  "pop_keys st = fold pop_key (pop_key_list (ml st)) st"

text \<open>Lines 386 to 501: everything \<open>load\<close> does once the table is read.\<close>

definition load_model :: "collab \<Rightarrow> load_only_arg option \<Rightarrow> load_state \<Rightarrow> load_outcome" where
  "load_model c load_only st =
     (case load_dis c st of
        Raises e cs \<Rightarrow> Raises e cs
      | Returns st1 \<Rightarrow>
          (case resolve_load_only load_only (ext_unit_dict st1) of
             Inl e \<Rightarrow> Raises e (calls st1)
           | Inr lo \<Rightarrow>
               (case set_parameters c st1 of
                  Raises e cs \<Rightarrow> Raises e cs
                | Returns st2 \<Rightarrow>
                    Returns (pop_keys (load_packages c lo (ext_unit_dict st2) st2)))))"

text \<open>The arguments of \<open>Modflow.load\<close>, and their defaults.\<close>

record load_args =
  arg_f :: string
  larg_version :: string
  larg_exe_name :: string
  larg_verbose :: bool
  larg_model_ws :: string
  arg_load_only :: "load_only_arg option"

definition default_load_args :: "string \<Rightarrow> load_args" where
  "default_load_args f =
     \<lparr> arg_f = f, larg_version = ''mf2k'', larg_exe_name = ''mf2005.exe'',
       larg_verbose = False, larg_model_ws = ''.'', arg_load_only = None \<rparr>"

text \<open>Lines 353 to 365: the model \<open>load\<close> constructs.\<close>

definition load_init_args :: "os \<Rightarrow> load_args \<Rightarrow> init_args" where
  "load_init_args env a =
     default_args\<lparr>
       arg_modelname :=
         (if os_path_isfile env (os_path_join (larg_model_ws a) (arg_f a))
          then rpartition_head (arg_f a) else arg_f a),
       arg_version := larg_version a, arg_exe_name := larg_exe_name a,
       arg_verbose := larg_verbose a, arg_model_ws := larg_model_ws a \<rparr>"

text \<open>Lines 353 to 380: the model is constructed and the name file read; the local
  state before the discretization package is looked for.\<close>

definition read_name_file :: "collab \<Rightarrow> os \<Rightarrow> load_args \<Rightarrow> heap \<Rightarrow> error + load_state" where
  "read_name_file c env a h =
     (case Modflow_init env (load_init_args env a) h of
        Inl e \<Rightarrow> Inl e
      | Inr (m, h') \<Rightarrow>
          (case parsenamefile c (os_path_join (model_ws m) (namefile m)) (h' ! mfnam_packages m) of
             Inl e \<Rightarrow>
               if is_Exception e
               then Inl (Exception (''error loading name file entries from file:'' @ nl
                                     @ str_error e))
               else Inl e
           | Inr tbl \<Rightarrow>
               Inr \<lparr> ml = m, ext_unit_dict = tbl, files_succesfully_loaded = [],
                     files_not_loaded = [], calls = [], store = h' \<rparr>))"

text \<open>\<open>Modflow.load\<close> (lines 327 to 501).\<close>

definition load :: "collab \<Rightarrow> os \<Rightarrow> load_args \<Rightarrow> heap \<Rightarrow> load_outcome" where
  "load c env a h =
     (case read_name_file c env a h of
        Inl e \<Rightarrow> Raises e []
      | Inr st0 \<Rightarrow> load_model c (arg_load_only a) st0)"

text \<open>The calls an outcome has made.\<close>

fun calls_of :: "load_outcome \<Rightarrow> call list" where
  "calls_of (Raises e cs) = cs"
| "calls_of (Returns st) = calls st"

section \<open>Notions of the specification\<close>

text \<open>The entries of a table whose tag is the discretization tag, in table order.\<close>

definition dis_entries :: "unit_table \<Rightarrow> unit_table" where
  "dis_entries tbl = filter (\<lambda>(key, item). lower (filetype item) = ''dis'') tbl"


text \<open>The tags of a \<open>load_only\<close> argument, and those of them that are missing from a
  table: tags are matched case-insensitively, so a requested tag is missing when it is
  not the discretization tag and no entry has its tag, both upper-cased.\<close>

definition tags_of :: "load_only_arg \<Rightarrow> string list" where
  "tags_of a = (case a of One s \<Rightarrow> [s] | Listed l \<Rightarrow> l)"

definition missing_tags :: "load_only_arg \<Rightarrow> unit_table \<Rightarrow> string list" where
  "missing_tags a tbl =
     filter (\<lambda>t. upper t \<noteq> ''DIS''
                \<and> upper t \<notin> set (map (\<lambda>(key, item). upper (filetype item)) tbl))
       (tags_of a)"

text \<open>Collaborators whose loaders leave the three external lists of the model as they
  find them, and a model whose three external lists have one length.\<close>

definition keeps_externals :: "collab \<Rightarrow> bool" where
  "keeps_externals c =
     (\<forall>p f m t. external_units (snd (package_load c p f m t)) = external_units m
        \<and> external_fnames (snd (package_load c p f m t)) = external_fnames m
        \<and> external_binflag (snd (package_load c p f m t)) = external_binflag m)"

definition aligned :: "model \<Rightarrow> bool" where
  "aligned m =
     (length (external_units m) = length (external_fnames m)
      \<and> length (external_fnames m) = length (external_binflag m))"

section \<open>Concrete inputs\<close>

text \<open>A file system where nothing exists yet, every call succeeds and every path is
  already relative.\<close>

definition os_plain :: os where
  "os_plain =
     \<lparr> os_path_exists = (\<lambda>p. False), os_path_isfile = (\<lambda>p. False), os_mkdir = (\<lambda>p. None),
       os_path_relpath = (\<lambda>f ws. Inr f), open_w = (\<lambda>p. None) \<rparr>"

text \<open>Two models constructed one after the other with the default arguments, and a
  model that owns a discretization package.\<close>

definition model0 :: model where
  "model0 = fst (projr (Modflow_init os_plain default_args []))"

definition model1 :: model where
  "model1 = fst (projr (Modflow_init os_plain default_args [mfnam_packages_literal]))"

definition dis_package :: Package where
  "dis_package = (Package_init ''modflowtest'' ''dis'' ''DIS'' 11)\<lparr> nlay := 3, nrow := 4, ncol := 5, nper := 2 \<rparr>"

definition model_with_dis :: model where
  "model_with_dis = model0\<lparr> packagelist := [dis_package] \<rparr>"

definition unstructured_args :: "string \<Rightarrow> init_args" where
  "unstructured_args v = default_args\<lparr> arg_structured := False, arg_version := v \<rparr>"

text \<open>A model with one external entry of unit 0, and a model of version \<open>mf2k\<close> that
  owns a package and has three external entries, the first of unit 0.\<close>

definition model_unit0 :: model where
  "model_unit0 = add_external model0 ''a.dat'' 0 False"

definition model_mf2k :: model where
  "model_mf2k =
     (add_external (add_external (add_external
        (fst (projr (Modflow_init os_plain (default_args\<lparr> arg_version := ''mf2k'' \<rparr>) [])))
        ''skip.dat'' 0 False) ''a.dat'' 1001 False) ''b.bin'' 1002 True)
     \<lparr> packagelist := [dis_package] \<rparr>"

text \<open>A unit table with the discretization entry in third place, collaborators that
  read this table, whose loader fails on the well package and on no other, and whose
  parameter steps change nothing; and the state of \<open>load\<close> once the table is read, with
  and without the discretization entry.\<close>

definition table_ex :: unit_table where
  "table_ex =
     [(20, \<lparr> filetype = ''WEL'', filename = ''m.wel'', package = Some ModflowWel \<rparr>),
      (30, \<lparr> filetype = ''DATA'', filename = ''a.dat'', package = None \<rparr>),
      (11, \<lparr> filetype = ''DIS'', filename = ''m.dis'', package = Some ModflowDis \<rparr>),
      (21, \<lparr> filetype = ''RCH'', filename = ''m.rch'', package = Some ModflowRch \<rparr>),
      (31, \<lparr> filetype = ''DATA(BINARY)'', filename = ''b.bin'', package = None \<rparr>),
      (40, \<lparr> filetype = ''XYZ'', filename = ''m.xyz'', package = None \<rparr>)]"

definition collab_ex :: "unit_table \<Rightarrow> collab" where
  "collab_ex tbl =
     \<lparr> parsenamefile = (\<lambda>path reg. Inr tbl),
       package_load = (\<lambda>p f m t. (if p = ModflowWel then Some (Exception ''bad file'') else None, m)),
       set_pval = (\<lambda>m t. Inr (m, t)),
       set_zone = (\<lambda>m t. Inr (m, t)),
       set_mult = (\<lambda>m t. Inr (m, t)) \<rparr>"

definition state_ex :: load_state where
  "state_ex = projr (read_name_file (collab_ex table_ex) os_plain (default_load_args ''m.nam'') [])"

definition state_nodis :: load_state where
  "state_nodis =
     projr (read_name_file (collab_ex (dict_pop 11 table_ex)) os_plain (default_load_args ''m.nam'') [])"

text \<open>The same state once the discretization package is loaded, and once the parameter
  steps are done; and two entries of the table.\<close>

definition state_dis :: load_state where
  "state_dis = state_ex\<lparr> calls := [Load ModflowDis ''m.dis''],
     files_succesfully_loaded := [''m.dis''], ext_unit_dict := dict_pop 11 table_ex \<rparr>"

definition state_par :: load_state where
  "state_par = state_dis\<lparr> calls := [Load ModflowDis ''m.dis'', Set_pval, Set_zone, Set_mult] \<rparr>"


definition bin_entry :: namdata where
  "bin_entry = \<lparr> filetype = ''DATA(BINARY)'', filename = ''b.bin'', package = None \<rparr>"






text \<open>A table whose recharge entry has its tag in lower case, and arguments of \<open>load\<close>
  that ask for this tag alone.\<close>

definition table_lower :: unit_table where
  "table_lower =
     [(11, \<lparr> filetype = ''DIS'', filename = ''m.dis'', package = Some ModflowDis \<rparr>),
      (21, \<lparr> filetype = ''rch'', filename = ''m.rch'', package = Some ModflowRch \<rparr>)]"

definition load_only_rch :: load_args where
  "load_only_rch = (default_load_args ''m.nam'')\<lparr> arg_load_only := Some (Listed [''rch'']) \<rparr>"

section \<open>Facts about strings\<close>

lemmas char_defs =
  lower_def upper_def lower_char_def upper_char_def upper_letters_def lower_letters_def

lemma upper_dis_eq: "upper ''dis'' = upper ''DIS''"
  by (simp add: char_defs)

lemma startswith_map: "startswith p s \<Longrightarrow> startswith (map f p) (map f s)"
  by (induction p s rule: startswith.induct) auto

lemma str_in_map: "str_in sub s \<Longrightarrow> str_in (map f sub) (map f s)"
  by (induction s) (auto dest: startswith_map [where f = f])

lemma str_in_lower_mfusg: "str_in ''mfusg'' v \<Longrightarrow> str_in ''mfusg'' (lower v)"
proof -
  assume "str_in ''mfusg'' v"
  then have "str_in (map lower_char ''mfusg'') (map lower_char v)"
    by (rule str_in_map)
  moreover have "map lower_char ''mfusg'' = ''mfusg''"
    by (simp add: char_defs)
  ultimately show ?thesis
    by (simp add: lower_def)
qed

section \<open>Construction\<close>

lemma Modflow_init_Inr:
  assumes "Modflow_init env a h = Inr (m, h')"
  shows "mfnam_packages m = length h" and "h' = h @ [mfnam_packages_literal]"
    and "Modflow_next_ext_unit m = 1000" and "structured m = arg_structured a"
    and "version m = lower (arg_version a)" and "packagelist m = []"
  using assms
  by (auto simp: Modflow_init_def BaseModel_init_def alloc_def Let_def
      split: if_splits option.splits)

lemma Modflow_init_model0:
  "Modflow_init os_plain default_args [] = Inr (model0, [mfnam_packages_literal])"
  by (simp add: model0_def Modflow_init_def default_args_def BaseModel_init_def char_defs
      external_option_def alloc_def)

lemma Modflow_init_model1:
  "Modflow_init os_plain default_args [mfnam_packages_literal]
   = Inr (model1, [mfnam_packages_literal, mfnam_packages_literal])"
  by (simp add: model1_def Modflow_init_def default_args_def BaseModel_init_def char_defs
      external_option_def alloc_def)

text \<open>
  C10 as stated fails: the version \<open>MFUSG\<close> does not contain \<open>mfusg\<close>, and the
  construction with \<open>structured=False\<close> returns an instance all the same, because the
  version is lowered before the test.
\<close>

theorem C10_counterexample:
  "\<not> str_in ''mfusg'' ''MFUSG''
   \<and> \<not> isl (Modflow_init os_plain (unstructured_args ''MFUSG'') [])"
  by (simp add: Modflow_init_def unstructured_args_def default_args_def BaseModel_init_def
      char_defs external_option_def alloc_def)

text \<open>
  C10, amended: constructing a model with \<open>structured=False\<close> and a version whose
  lower-cased form does not contain \<open>mfusg\<close> raises the assertion failure; with a version
  whose lower-cased form contains \<open>mfusg\<close> (so with any version that contains \<open>mfusg\<close>)
  \<open>structured=False\<close> is accepted: the construction then raises only what the external
  option raises, and returns an instance when that passes.
\<close>

theorem C10_structured_needs_mfusg:
  assumes "\<not> arg_structured a"
  shows "(\<not> str_in ''mfusg'' (lower (arg_version a)) \<longrightarrow>
            Modflow_init env a h = Inl (AssertionError structured_msg))
       \<and> (str_in ''mfusg'' (lower (arg_version a)) \<longrightarrow>
            (external_option env (arg_model_ws a) (arg_external_path a) = None \<longrightarrow>
               \<not> isl (Modflow_init env a h))
            \<and> (\<forall>e. external_option env (arg_model_ws a) (arg_external_path a) = Some e \<longrightarrow>
                 Modflow_init env a h = Inl e))
       \<and> (str_in ''mfusg'' (arg_version a) \<longrightarrow> str_in ''mfusg'' (lower (arg_version a)))"
  using assms
  by (auto simp: Modflow_init_def BaseModel_init_def alloc_def Let_def str_in_lower_mfusg
      split: option.splits)

theorem C10_witness:
  "\<not> arg_structured (unstructured_args ''mf2005'')
   \<and> Modflow_init os_plain (unstructured_args ''mf2005'') [] = Inl (AssertionError structured_msg)
   \<and> \<not> isl (Modflow_init os_plain (unstructured_args ''mfusg'') [])"
  using C10_structured_needs_mfusg [of "unstructured_args ''mf2005''" os_plain "[]"]
    C10_structured_needs_mfusg [of "unstructured_args ''mfusg''" os_plain "[]"]
  by (simp add: unstructured_args_def default_args_def char_defs external_option_def)

text \<open>
  C9: each instance owns its own registry dict, constructed from the literal when the
  instance is. Of two instances, the second constructed in any later store \<open>g\<close> (a store
  only grows), the registries are different objects, each holds the literal when its
  instance is constructed, and giving one of them a new value \<open>d\<close> leaves the other as
  it was.
\<close>

theorem C9_registry_per_instance:
  assumes first: "Modflow_init env1 a1 h = Inr (m1, h1)"
    and later: "length h1 \<le> length g"
    and second: "Modflow_init env2 a2 g = Inr (m2, h2)"
  shows "mfnam_packages m1 \<noteq> mfnam_packages m2
    \<and> deref h1 (mfnam_packages m1) = Some mfnam_packages_literal
    \<and> deref h2 (mfnam_packages m2) = Some mfnam_packages_literal
    \<and> deref (dict_update h2 (mfnam_packages m1) d) (mfnam_packages m2) = deref h2 (mfnam_packages m2)
    \<and> deref (dict_update h2 (mfnam_packages m2) d) (mfnam_packages m1) = deref h2 (mfnam_packages m1)
    \<and> deref (dict_update h2 (mfnam_packages m1) d) (mfnam_packages m1) = Some d"
proof -
  note a = Modflow_init_Inr(1,2) [OF first]
  note b = Modflow_init_Inr(1,2) [OF second]
  have lt: "length h < length g"
    using later a by simp
  show ?thesis
    using lt by (simp add: a b deref_def dict_update_def nth_append)
qed

theorem C9_witness:
  "Modflow_init os_plain default_args [] = Inr (model0, [mfnam_packages_literal])
   \<and> Modflow_init os_plain default_args [mfnam_packages_literal]
       = Inr (model1, [mfnam_packages_literal, mfnam_packages_literal])
   \<and> mfnam_packages model0 \<noteq> mfnam_packages model1
   \<and> deref (dict_update [mfnam_packages_literal, mfnam_packages_literal] (mfnam_packages model0) [])
       (mfnam_packages model1) = Some mfnam_packages_literal
   \<and> deref (dict_update [mfnam_packages_literal, mfnam_packages_literal] (mfnam_packages model0) [])
       (mfnam_packages model0) = Some []"
  using C9_registry_per_instance [OF Modflow_init_model0 _ Modflow_init_model1, of "[]"]
    Modflow_init_model0 Modflow_init_model1
  by simp

section \<open>The external-unit allocator\<close>

lemma next_ext_units_eq:
  "next_ext_units n m =
     (map (\<lambda>i. Modflow_next_ext_unit m + 1 + int i) [0..<n],
      m\<lparr>Modflow_next_ext_unit := Modflow_next_ext_unit m + int n\<rparr>)"
proof (induction n arbitrary: m)
  case 0
  show ?case by simp
next
  case (Suc n)
  have "map (\<lambda>i. Modflow_next_ext_unit m + 1 + int i) [0..<Suc n]
        = (Modflow_next_ext_unit m + 1) # map (\<lambda>i. Modflow_next_ext_unit m + 1 + 1 + int i) [0..<n]"
    by (simp add: upt_rec [of 0] map_Suc_upt [symmetric] del: upt_Suc)
  then show ?case
    by (simp add: Suc next_ext_unit_def del: upt_Suc)
qed

text \<open>
  C5: on a constructed instance, after any \<open>k\<close> earlier calls (returning \<open>prev\<close>), \<open>n\<close>
  consecutive calls of \<open>next_ext_unit\<close> return \<open>n\<close> strictly increasing integers, none
  below 1000 (all are above it) and none among those returned before.
\<close>

theorem C5_next_ext_unit_increasing:
  assumes init: "Modflow_init env a h = Inr (m0, h')"
    and before: "next_ext_units k m0 = (prev, m)"
    and now: "next_ext_units n m = (rs, m')"
  shows "length rs = n \<and> sorted_wrt (<) rs \<and> (\<forall>r \<in> set rs. 1000 < r) \<and> set rs \<inter> set prev = {}"
proof -
  have c0: "Modflow_next_ext_unit m0 = 1000"
    using init by (rule Modflow_init_Inr)
  have prev: "prev = map (\<lambda>i. 1001 + int i) [0..<k]"
    and cm: "Modflow_next_ext_unit m = 1000 + int k"
    using before c0 by (auto simp: next_ext_units_eq)
  have rs: "rs = map (\<lambda>i. 1001 + int k + int i) [0..<n]"
    using now cm by (simp add: next_ext_units_eq)
  have "sorted_wrt (<) rs"
    unfolding rs by (simp add: sorted_wrt_map)
  moreover have "\<forall>r \<in> set rs. 1000 < r"
    unfolding rs by auto
  moreover have "set rs \<inter> set prev = {}"
    unfolding rs prev by auto
  ultimately show ?thesis
    by (simp add: rs)
qed

theorem C5_witness:
  "Modflow_init os_plain default_args [] = Inr (model0, [mfnam_packages_literal])
   \<and> fst (next_ext_units 2 model0) = [1001, 1002]
   \<and> fst (next_ext_units 3 (snd (next_ext_units 2 model0))) = [1003, 1004, 1005]
   \<and> sorted_wrt (<) (fst (next_ext_units 3 (snd (next_ext_units 2 model0))))
   \<and> set (fst (next_ext_units 3 (snd (next_ext_units 2 model0))))
       \<inter> set (fst (next_ext_units 2 model0)) = {}"
proof -
  have c0: "Modflow_next_ext_unit model0 = 1000"
    using Modflow_init_model0 by (rule Modflow_init_Inr)
  have e1: "fst (next_ext_units 2 model0) = [1001, 1002]"
    by (simp add: numeral_2_eq_2 next_ext_unit_def c0)
  have e2: "fst (next_ext_units 3 (snd (next_ext_units 2 model0))) = [1003, 1004, 1005]"
    by (simp add: numeral_2_eq_2 numeral_3_eq_3 next_ext_unit_def c0)
  show ?thesis
    using C5_next_ext_unit_increasing [OF Modflow_init_model0,
        of 2 "fst (next_ext_units 2 model0)" "snd (next_ext_units 2 model0)"
        3 "fst (next_ext_units 3 (snd (next_ext_units 2 model0)))"
        "snd (next_ext_units 3 (snd (next_ext_units 2 model0)))"]
      Modflow_init_model0 e1 e2
    by simp
qed

section \<open>The grid shape\<close>

lemma getattr_dis: "getattr_package m ''dis'' = get_package m ''DIS''"
  unfolding getattr_package_def get_package_def upper_dis_eq by (rule refl)

text \<open>
  C8: on a model with no discretization package (\<open>get_package\<close> finds none) the
  accessors \<open>nlay\<close>, \<open>nrow\<close>, \<open>ncol\<close> and \<open>nper\<close> return 0 and \<open>get_nrow_ncol_nlay_nper\<close>
  returns (0, 0, 0, 0); with a discretization package \<open>d\<close>, each returns the value of
  \<open>d\<close>, the tuple in the order nrow, ncol, nlay, nper.
\<close>

theorem C8_grid_shape:
  "(get_package m ''DIS'' = None \<longrightarrow>
      get_nlay m = 0 \<and> get_nrow m = 0 \<and> get_ncol m = 0 \<and> get_nper m = 0
      \<and> get_nrow_ncol_nlay_nper m = (0, 0, 0, 0))
   \<and> (\<forall>d. get_package m ''DIS'' = Some d \<longrightarrow>
      get_nlay m = nlay d \<and> get_nrow m = nrow d \<and> get_ncol m = ncol d \<and> get_nper m = nper d
      \<and> get_nrow_ncol_nlay_nper m = (nrow d, ncol d, nlay d, nper d))"
  by (simp add: get_nlay_def get_nrow_def get_ncol_def get_nper_def
      get_nrow_ncol_nlay_nper_def getattr_dis)

theorem C8_witness:
  "get_package model0 ''DIS'' = None
   \<and> get_nlay model0 = 0 \<and> get_nrow_ncol_nlay_nper model0 = (0, 0, 0, 0)
   \<and> get_package model_with_dis ''DIS'' = Some dis_package
   \<and> get_nlay model_with_dis = 3 \<and> get_nrow model_with_dis = 4
   \<and> get_ncol model_with_dis = 5 \<and> get_nper model_with_dis = 2
   \<and> get_nrow_ncol_nlay_nper model_with_dis = (4, 5, 3, 2)"
proof -
  have none: "get_package model0 ''DIS'' = None"
    using Modflow_init_Inr(6) [OF Modflow_init_model0] by (simp add: get_package_def)
  have some: "get_package model_with_dis ''DIS'' = Some dis_package"
    by (simp add: get_package_def model_with_dis_def dis_package_def Package_init_def)
  show ?thesis
    using C8_grid_shape [of model0] C8_grid_shape [of model_with_dis] none some
    by (simp add: dis_package_def)
qed

section \<open>The name file written\<close>

lemma first_entry_ok:
  "name p \<noteq> [] \<Longrightarrow> unit_number p \<noteq> [] \<Longrightarrow> file_name p \<noteq> [] \<Longrightarrow>
   first_entry p = Inr (entry_line p)"
  by (cases "name p"; cases "unit_number p"; cases "file_name p")
    (simp_all add: first_entry_def entry_line_def)

lemma write_externals_ok:
  "\<forall>(u, f, b) \<in> set xs. u \<noteq> 0 \<longrightarrow> \<not> isl (os_path_relpath env f ws) \<Longrightarrow>
   write_externals env ws xs buf
   = Inr (buf @ concat (map (\<lambda>(u, f, b). data_line u (relpath_of env ws f) b)
                          (filter (\<lambda>(u, f, b). u \<noteq> 0) xs)))"
proof (induction xs arbitrary: buf)
  case Nil
  show ?case by simp
next
  case (Cons x xs)
  obtain u f b where x: "x = (u, f, b)"
    by (cases x) auto
  have rest: "\<forall>(u, f, b) \<in> set xs. u \<noteq> 0 \<longrightarrow> \<not> isl (os_path_relpath env f ws)"
    using Cons.prems by simp
  show ?case
  proof (cases "u = 0")
    case True
    then show ?thesis
      using Cons.IH [OF rest] by (simp add: x)
  next
    case False
    then have "\<not> isl (os_path_relpath env f ws)"
      using Cons.prems by (simp add: x)
    then obtain fr where fr: "os_path_relpath env f ws = Inr fr"
      by (cases "os_path_relpath env f ws") auto
    show ?thesis
      using False Cons.IH [OF rest] by (simp add: x fr relpath_of_def)
  qed
qed

text \<open>
  C7 as stated fails: a model whose only external entry has unit 0 gets no data line,
  where the claim has one for every external entry.
\<close>

theorem C7_counterexample:
  "externals model_unit0 = [(0, ''a.dat'', False)]
   \<and> write_name_file os_plain model_unit0
       = Inr ''# Name file for mf2005, generated by Flopy.\<newline>LIST           2 modflowtest.list\<newline>''
   \<and> claimed_name_file os_plain model_unit0
       = ''# Name file for mf2005, generated by Flopy.\<newline>LIST           2 modflowtest.list\<newline>DATA            0  a.dat\<newline>''
   \<and> write_name_file os_plain model_unit0 \<noteq> Inr (claimed_name_file os_plain model_unit0)"
  by code_simp

text \<open>
  C7, amended: when the file opens, the global and listing packages have their first
  file entry and the relative path of every written external file is found,
  \<open>write_name_file\<close> writes, in order: the heading line; the global-package line only when
  the version is \<open>mf2k\<close>; the listing-package line; one line per owned package file
  entry; then one \<open>DATA\<close> or \<open>DATA(BINARY)\<close> line for every external entry whose unit is
  not 0, its filename relative to the workspace.
\<close>

theorem C7_write_name_file:
  assumes opened: "open_w env (os_path_join (model_ws m) (namefile m)) = None"
    and glo_ok: "version m = ''mf2k'' \<longrightarrow>
       (\<exists>g. glo m = Some g \<and> name g \<noteq> [] \<and> unit_number g \<noteq> [] \<and> file_name g \<noteq> [])"
    and lst_ok: "name (lst m) \<noteq> [] \<and> unit_number (lst m) \<noteq> [] \<and> file_name (lst m) \<noteq> []"
    and rel_ok: "\<forall>(u, f, b) \<in> set (externals m). u \<noteq> 0 \<longrightarrow> \<not> isl (os_path_relpath env f (model_ws m))"
  shows "write_name_file env m = Inr (spec_name_file env m)"
proof -
  have l: "first_entry (lst m) = Inr (entry_line (lst m))"
    using lst_ok by (simp add: first_entry_ok)
  show ?thesis
  proof (cases "version m = ''mf2k''")
    case True
    then obtain g where g: "glo m = Some g" "first_entry g = Inr (entry_line g)"
      using glo_ok by (auto simp: first_entry_ok)
    show ?thesis
      using True by (simp add: write_name_file_def opened g l write_externals_ok [OF rel_ok]
          spec_name_file_def name_file_head_def)
  next
    case False
    then show ?thesis
      by (simp add: write_name_file_def opened l write_externals_ok [OF rel_ok]
          spec_name_file_def name_file_head_def)
  qed
qed


theorem C7_witness:
  "open_w os_plain (os_path_join (model_ws model_mf2k) (namefile model_mf2k)) = None
   \<and> version model_mf2k = ''mf2k''
   \<and> externals model_mf2k = [(0, ''skip.dat'', False), (1001, ''a.dat'', False), (1002, ''b.bin'', True)]
   \<and> write_name_file os_plain model_mf2k = Inr (spec_name_file os_plain model_mf2k)
   \<and> spec_name_file os_plain model_mf2k
       = ''# Name file for mf2k, generated by Flopy.\<newline>GLOBAL         1 modflowtest.glo\<newline>LIST           2 modflowtest.list\<newline>DIS           11 modflowtest.dis\<newline>DATA          1001  a.dat\<newline>DATA(BINARY)  1002  b.bin REPLACE\<newline>''"
proof -
  have o: "open_w os_plain (os_path_join (model_ws model_mf2k) (namefile model_mf2k)) = None"
    by (simp add: os_plain_def)
  have v: "version model_mf2k = ''mf2k''"
    by code_simp
  have g: "glo model_mf2k = Some (ModflowGlobal ''modflowtest'')"
    by code_simp
  have l: "lst model_mf2k = ModflowList ''modflowtest'' 2"
    by code_simp
  have x: "externals model_mf2k
           = [(0, ''skip.dat'', False), (1001, ''a.dat'', False), (1002, ''b.bin'', True)]"
    by code_simp
  have s: "spec_name_file os_plain model_mf2k
       = ''# Name file for mf2k, generated by Flopy.\<newline>GLOBAL         1 modflowtest.glo\<newline>LIST           2 modflowtest.list\<newline>DIS           11 modflowtest.dis\<newline>DATA          1001  a.dat\<newline>DATA(BINARY)  1002  b.bin REPLACE\<newline>''"
    by code_simp
  have "write_name_file os_plain model_mf2k = Inr (spec_name_file os_plain model_mf2k)"
    by (rule C7_write_name_file)
      (simp_all add: o g l x ModflowGlobal_def ModflowList_def Package_init_def os_plain_def)
  then show ?thesis
    using o v x s by simp
qed

section \<open>Loading: the discretization package\<close>

lemma find_filter: "find P xs = (case filter P xs of [] \<Rightarrow> None | x # _ \<Rightarrow> Some x)"
  by (induction xs) auto

lemma find_dis_entries:
  "find_dis tbl = (case dis_entries tbl of [] \<Rightarrow> None | e # _ \<Rightarrow> Some e)"
  by (simp add: find_dis_def dis_entries_def find_filter)

lemma read_name_file_Inr:
  assumes "read_name_file c env a h = Inr st0"
  shows "calls st0 = []" and "files_not_loaded st0 = []" and "files_succesfully_loaded st0 = []"
    and "store st0 ! mfnam_packages (ml st0) = mfnam_packages_literal"
    and "parsenamefile c (os_path_join (model_ws (ml st0)) (namefile (ml st0)))
           (store st0 ! mfnam_packages (ml st0)) = Inr (ext_unit_dict st0)"
proof -
  obtain m h' where init: "Modflow_init env (load_init_args env a) h = Inr (m, h')"
    using assms by (auto simp: read_name_file_def split: sum.splits)
  obtain tbl where
    parse: "parsenamefile c (os_path_join (model_ws m) (namefile m)) (h' ! mfnam_packages m) = Inr tbl"
    using assms init by (auto simp: read_name_file_def split: sum.splits if_splits)
  have st0: "st0 = \<lparr> ml = m, ext_unit_dict = tbl, files_succesfully_loaded = [],
                     files_not_loaded = [], calls = [], store = h' \<rparr>"
    using assms init parse by (simp add: read_name_file_def)
  have reg: "h' ! mfnam_packages m = mfnam_packages_literal"
    by (simp add: Modflow_init_Inr(1,2) [OF init])
  show "calls st0 = []" and "files_not_loaded st0 = []" and "files_succesfully_loaded st0 = []"
    by (simp_all add: st0)
  show "store st0 ! mfnam_packages (ml st0) = mfnam_packages_literal"
    by (simp add: st0 reg)
  show "parsenamefile c (os_path_join (model_ws (ml st0)) (namefile (ml st0)))
           (store st0 ! mfnam_packages (ml st0)) = Inr (ext_unit_dict st0)"
    using parse by (simp add: st0)
qed

lemma load_model_no_dis:
  "dis_entries (ext_unit_dict st) = [] \<Longrightarrow>
   load_model c lo st = Raises (none_has_no ''filename'') (calls st)"
  by (simp add: load_model_def load_dis_def find_dis_entries)

text \<open>
  C1: when the name file is read and its table has zero entries whose tag is the
  discretization tag, \<open>load\<close> raises (the AttributeError of reading \<open>dis.filename\<close> on
  \<open>None\<close>, no loader having been invoked) and returns no model.
\<close>

theorem C1_no_dis_raises:
  assumes "read_name_file c env a h = Inr st0"
    and "dis_entries (ext_unit_dict st0) = []"
  shows "load c env a h = Raises (none_has_no ''filename'') []
    \<and> (\<forall>st. load c env a h \<noteq> Returns st)"
  using assms by (simp add: load_def load_model_no_dis read_name_file_Inr)


theorem C1_witness:
  "read_name_file (collab_ex (dict_pop 11 table_ex)) os_plain (default_load_args ''m.nam'') []
     = Inr state_nodis
   \<and> dis_entries (ext_unit_dict state_nodis) = []
   \<and> load (collab_ex (dict_pop 11 table_ex)) os_plain (default_load_args ''m.nam'') []
     = Raises (none_has_no ''filename'') []"
proof -
  have r: "read_name_file (collab_ex (dict_pop 11 table_ex)) os_plain (default_load_args ''m.nam'') []
     = Inr state_nodis"
    by code_simp
  have d: "dis_entries (ext_unit_dict state_nodis) = []"
    by code_simp
  show ?thesis
    using C1_no_dis_raises [OF r d] r d by simp
qed














section \<open>Loading: the packages\<close>

lemma load_packages_append:
  "load_packages c lo (xs @ ys) st = load_packages c lo ys (load_packages c lo xs st)"
  by (induction xs arbitrary: st) simp_all







section \<open>Loading: the allow-list\<close>

lemma list_ex_filetype:
  "list_ex (\<lambda>(key, item). filetype item = t) tbl
   = (t \<in> set (map (\<lambda>(key, item). filetype item) tbl))"
  by (auto simp: list_ex_iff)

lemma check_load_only_eq:
  "check_load_only ts tbl =
     (map (\<lambda>t. if upper t \<noteq> ''DIS'' then upper t else t) ts,
      filter (\<lambda>t. t \<noteq> ''DIS'' \<and> t \<notin> set (map (\<lambda>(key, item). filetype item) tbl)) (map upper ts))"
  by (induction ts) (simp_all add: Let_def list_ex_filetype)

text \<open>On a table whose tags are all in upper case, the check of lines 412 to 428 finds
  the missing tags of the specification and raises the exception that lists them,
  upper-cased; with none missing it accepts the list.\<close>

lemma resolve_load_only_upper_table:
  assumes up: "\<forall>(key, item) \<in> set tbl. upper (filetype item) = filetype item"
  shows "resolve_load_only (Some la) tbl =
     (if missing_tags la tbl \<noteq> []
      then Inl (Exception (not_found_msg (map upper (missing_tags la tbl))))
      else Inr (map (\<lambda>t. if upper t \<noteq> ''DIS'' then upper t else t) (tags_of la)))"
proof -
  have tags: "map (\<lambda>(key, item). upper (filetype item)) tbl = map (\<lambda>(key, item). filetype item) tbl"
    using up by (auto intro!: map_cong)
  have "filter (\<lambda>t. t \<noteq> ''DIS'' \<and> t \<notin> set (map (\<lambda>(key, item). filetype item) tbl))
          (map upper (tags_of la))
        = map upper (missing_tags la tbl)"
    by (simp add: missing_tags_def tags filter_map comp_def)
  then show ?thesis
    by (simp add: resolve_load_only_def check_load_only_eq tags_of_def)
qed

text \<open>
  C4 at a table whose recharge entry is written \<open>rch\<close>: asked to load \<open>rch\<close> alone,
  \<open>load\<close> upper-cases the request, compares it with the tag as written and raises
  "not found", although \<open>rch\<close> is the filetype of an entry that remains in the table
  and no requested tag is missing; with \<open>load_only\<close> omitted the same table loads the
  recharge package.
\<close>

theorem C4_lower_case_tag_not_found:
  "map (\<lambda>(key, item). filetype item) (dict_pop 11 table_lower) = [''rch'']
   \<and> missing_tags (Listed [''rch'']) (dict_pop 11 table_lower) = []
   \<and> load (collab_ex table_lower) os_plain load_only_rch []
       = Raises (Exception
           ''the following load_only entries were not found in the ext_unit_dict: RCH'')
           [Load ModflowDis ''m.dis'']
   \<and> calls_of (load (collab_ex table_lower) os_plain (default_load_args ''m.nam'') [])
       = [Load ModflowDis ''m.dis'', Set_pval, Set_zone, Set_mult, Load ModflowRch ''m.rch'']"
  by code_simp

section \<open>Loading: external data files\<close>

lemma load_package_data:
  assumes "package item = None" and "str_in ''data'' (lower (filetype item))"
  shows "load_package c lo (key, item) st =
     (if key \<in> set (pop_key_list (ml st)) then st
      else st\<lparr> ml := add_external (ml st) (filename item) key
                       (str_in ''binary'' (lower (filetype item))) \<rparr>)"
  using assms by (simp add: load_package_def)

text \<open>What the pop pass leaves of the external entries.\<close>

lemma zip_triples:
  "zip (map fst xs) (zip (map (\<lambda>(u, f, b). f) xs) (map (\<lambda>(u, f, b). b) xs)) = xs"
  by (induction xs) auto

lemma externals_remove_external:
  "externals (remove_external m u) = filter (\<lambda>(u', f, b). u' \<noteq> u) (externals m)"
  by (simp add: remove_external_def Let_def externals_def [of "_\<lparr>external_units := _, external_fnames := _, external_binflag := _\<rparr>"] zip_triples)

lemma pop_key_list_remove_external: "pop_key_list (remove_external m u) = pop_key_list m"
  by (simp add: remove_external_def Let_def)

lemma fold_pop_key_externals:
  "externals (ml (fold pop_key ks st)) = filter (\<lambda>(u, f, b). u \<notin> set ks) (externals (ml st))"
proof (induction ks arbitrary: st)
  case Nil
  show ?case by simp
next
  case (Cons k ks)
  have "externals (ml (pop_key k st)) = filter (\<lambda>(u, f, b). u \<noteq> k) (externals (ml st))"
    by (simp add: pop_key_def externals_remove_external)
  then show ?case
    by (simp add: Cons.IH) (rule filter_cong, auto)
qed

lemma externals_pop_keys:
  "externals (ml (pop_keys st))
   = filter (\<lambda>(u, f, b). u \<notin> set (pop_key_list (ml st))) (externals (ml st))"
  by (simp add: pop_keys_def fold_pop_key_externals)

text \<open>With loaders that keep the external lists, the loop only appends to them, one
  record at a time.\<close>

lemma load_package_appends:
  assumes "keeps_externals c"
  shows "\<exists>xs. external_units (ml (load_package c lo entry st)) = external_units (ml st) @ map fst xs
    \<and> external_fnames (ml (load_package c lo entry st))
        = external_fnames (ml st) @ map (\<lambda>(u, f, b). f) xs
    \<and> external_binflag (ml (load_package c lo entry st))
        = external_binflag (ml st) @ map (\<lambda>(u, f, b). b) xs"
proof -
  obtain key item where entry: "entry = (key, item)"
    by (cases entry) auto
  show ?thesis
  proof (cases "package item")
    case (Some p)
    obtain r ml' where r: "package_load c p (filename item) (ml st) (ext_unit_dict st) = (r, ml')"
      by (cases "package_load c p (filename item) (ml st) (ext_unit_dict st)") auto
    have "external_units ml' = external_units (ml st) \<and> external_fnames ml' = external_fnames (ml st)
        \<and> external_binflag ml' = external_binflag (ml st)"
      using assms r unfolding keeps_externals_def by (metis snd_conv)
    then have "external_units (ml (load_package c lo entry st)) = external_units (ml st) @ map fst []
      \<and> external_fnames (ml (load_package c lo entry st))
          = external_fnames (ml st) @ map (\<lambda>(u, f, b). f) []
      \<and> external_binflag (ml (load_package c lo entry st))
          = external_binflag (ml st) @ map (\<lambda>(u, f, b). b) []"
      by (cases r) (simp_all add: load_package_def entry Some r Let_def)
    then show ?thesis by blast
  next
    case None
    show ?thesis
    proof (cases "str_in ''data'' (lower (filetype item)) \<and> key \<notin> set (pop_key_list (ml st))")
      case True
      have "external_units (ml (load_package c lo entry st))
              = external_units (ml st)
                @ map fst [(key, filename item, str_in ''binary'' (lower (filetype item)))]
        \<and> external_fnames (ml (load_package c lo entry st))
              = external_fnames (ml st)
                @ map (\<lambda>(u, f, b). f) [(key, filename item, str_in ''binary'' (lower (filetype item)))]
        \<and> external_binflag (ml (load_package c lo entry st))
              = external_binflag (ml st)
                @ map (\<lambda>(u, f, b). b) [(key, filename item, str_in ''binary'' (lower (filetype item)))]"
        using True by (simp add: load_package_def entry None add_external_def)
      then show ?thesis by blast
    next
      case False
      then have "external_units (ml (load_package c lo entry st)) = external_units (ml st) @ map fst []
        \<and> external_fnames (ml (load_package c lo entry st))
            = external_fnames (ml st) @ map (\<lambda>(u, f, b). f) []
        \<and> external_binflag (ml (load_package c lo entry st))
            = external_binflag (ml st) @ map (\<lambda>(u, f, b). b) []"
        by (auto simp: load_package_def entry None)
      then show ?thesis by blast
    qed
  qed
qed

lemma load_packages_appends:
  assumes "keeps_externals c"
  shows "\<exists>xs. external_units (ml (load_packages c lo tbl st)) = external_units (ml st) @ map fst xs
    \<and> external_fnames (ml (load_packages c lo tbl st))
        = external_fnames (ml st) @ map (\<lambda>(u, f, b). f) xs
    \<and> external_binflag (ml (load_packages c lo tbl st))
        = external_binflag (ml st) @ map (\<lambda>(u, f, b). b) xs"
proof (induction tbl arbitrary: st)
  case Nil
  have "external_units (ml st) = external_units (ml st) @ map fst []
    \<and> external_fnames (ml st) = external_fnames (ml st) @ map (\<lambda>(u, f, b). f) []
    \<and> external_binflag (ml st) = external_binflag (ml st) @ map (\<lambda>(u, f, b). b) []"
    by simp
  then show ?case
    unfolding load_packages.simps by blast
next
  case (Cons entry tbl)
  let ?st = "load_package c lo entry st"
  obtain xs where xs: "external_units (ml ?st) = external_units (ml st) @ map fst xs"
    "external_fnames (ml ?st) = external_fnames (ml st) @ map (\<lambda>(u, f, b). f) xs"
    "external_binflag (ml ?st) = external_binflag (ml st) @ map (\<lambda>(u, f, b). b) xs"
    using load_package_appends [OF assms] by blast
  obtain ys where ys:
    "external_units (ml (load_packages c lo tbl ?st)) = external_units (ml ?st) @ map fst ys"
    "external_fnames (ml (load_packages c lo tbl ?st))
       = external_fnames (ml ?st) @ map (\<lambda>(u, f, b). f) ys"
    "external_binflag (ml (load_packages c lo tbl ?st))
       = external_binflag (ml ?st) @ map (\<lambda>(u, f, b). b) ys"
    using Cons.IH by blast
  have "external_units (ml (load_packages c lo (entry # tbl) st))
          = external_units (ml st) @ map fst (xs @ ys)
    \<and> external_fnames (ml (load_packages c lo (entry # tbl) st))
          = external_fnames (ml st) @ map (\<lambda>(u, f, b). f) (xs @ ys)
    \<and> external_binflag (ml (load_packages c lo (entry # tbl) st))
          = external_binflag (ml st) @ map (\<lambda>(u, f, b). b) (xs @ ys)"
    by (simp add: xs ys)
  then show ?case by blast
qed

lemma externals_append:
  assumes "aligned m"
    and "external_units m' = external_units m @ map fst xs"
    and "external_fnames m' = external_fnames m @ map (\<lambda>(u, f, b). f) xs"
    and "external_binflag m' = external_binflag m @ map (\<lambda>(u, f, b). b) xs"
  shows "externals m' = externals m @ xs"
  using assms(1) by (simp add: externals_def aligned_def assms(2-4) zip_triples)

text \<open>
  C6: let \<open>(key, item)\<close> be an entry of the working table of \<open>load\<close>, the discretization
  load, the \<open>load_only\<close> check and the parameter steps having returned, that the registry
  did not recognize and whose tag contains \<open>data\<close> case-insensitively; let \<open>s\<close> be the
  state in which the loop reaches it, \<open>s'\<close> the state after it and \<open>t\<close> the state at the
  end of the loop. Then \<open>load\<close> returns, with the model of \<open>t\<close> after the pop pass; the
  entry adds nothing to the not-loaded list, the loaded list or the calls; when its
  unit is not on the pop list it appends exactly one record (filename, unit, binary
  flag) to the external lists of the model, the flag being whether the tag contains
  \<open>binary\<close> case-insensitively, and when it is on the pop list it changes nothing; the
  pop pass leaves on the returned model the external entries whose unit is not on the
  pop list; so the returned model has no entry of this unit when the unit is on the
  pop list at the end, and, with loaders that keep the external lists, it has the
  record when the unit is on the pop list neither when the entry is reached nor at
  the end.
\<close>

theorem C6_data_entry_registered:
  fixes c :: collab and lo :: "string list" and pre post :: unit_table and st2 :: load_state
    and key :: int and item :: namdata
  defines "s \<equiv> load_packages c lo pre st2"
    and "s' \<equiv> load_package c lo (key, item) (load_packages c lo pre st2)"
    and "t \<equiv> load_packages c lo post (load_package c lo (key, item) (load_packages c lo pre st2))"
    and "flag \<equiv> str_in ''binary'' (lower (filetype item))"
  assumes read: "read_name_file c env a h = Inr st0"
    and dis: "load_dis c st0 = Returns st1"
    and lo: "resolve_load_only (arg_load_only a) (ext_unit_dict st1) = Inr lo"
    and par: "set_parameters c st1 = Returns st2"
    and entry: "ext_unit_dict st2 = pre @ (key, item) # post"
    and unrecognized: "package item = None"
    and data: "str_in ''data'' (lower (filetype item))"
  shows "load c env a h = Returns (pop_keys t)
    \<and> files_not_loaded s' = files_not_loaded s
    \<and> files_succesfully_loaded s' = files_succesfully_loaded s
    \<and> calls s' = calls s
    \<and> (key \<notin> set (pop_key_list (ml s)) \<longrightarrow>
         external_fnames (ml s') = external_fnames (ml s) @ [filename item]
         \<and> external_units (ml s') = external_units (ml s) @ [key]
         \<and> external_binflag (ml s') = external_binflag (ml s) @ [flag])
    \<and> (key \<in> set (pop_key_list (ml s)) \<longrightarrow> s' = s)
    \<and> externals (ml (pop_keys t))
        = filter (\<lambda>(u, f, b). u \<notin> set (pop_key_list (ml t))) (externals (ml t))
    \<and> (key \<in> set (pop_key_list (ml t)) \<longrightarrow>
         (\<forall>(u, f, b) \<in> set (externals (ml (pop_keys t))). u \<noteq> key))
    \<and> (keeps_externals c \<longrightarrow> aligned (ml s) \<longrightarrow>
         key \<notin> set (pop_key_list (ml s)) \<longrightarrow> key \<notin> set (pop_key_list (ml t)) \<longrightarrow>
         (key, filename item, flag) \<in> set (externals (ml (pop_keys t))))"
proof -
  have s': "s' = (if key \<in> set (pop_key_list (ml s)) then s
                  else s\<lparr> ml := add_external (ml s) (filename item) key flag \<rparr>)"
    unfolding s'_def s_def flag_def by (rule load_package_data [OF unrecognized data])
  have t: "t = load_packages c lo post s'"
    by (simp add: t_def s'_def)
  have "load_packages c lo (ext_unit_dict st2) st2 = t"
    by (simp add: entry load_packages_append t_def)
  then have returns: "load c env a h = Returns (pop_keys t)"
    by (simp add: load_def read load_model_def dis lo par)
  have registered: "(key, filename item, flag) \<in> set (externals (ml (pop_keys t)))"
    if keeps: "keeps_externals c" and al: "aligned (ml s)"
      and k1: "key \<notin> set (pop_key_list (ml s))" and k2: "key \<notin> set (pop_key_list (ml t))"
  proof -
    have ext_s': "externals (ml s') = externals (ml s) @ [(key, filename item, flag)]"
      using al k1 by (simp add: s' add_external_def externals_def aligned_def)
    have al': "aligned (ml s')"
      using al k1 by (simp add: s' add_external_def aligned_def)
    obtain xs where "external_units (ml t) = external_units (ml s') @ map fst xs"
      "external_fnames (ml t) = external_fnames (ml s') @ map (\<lambda>(u, f, b). f) xs"
      "external_binflag (ml t) = external_binflag (ml s') @ map (\<lambda>(u, f, b). b) xs"
      using load_packages_appends [OF keeps, of lo post s'] unfolding t by blast
    then have "externals (ml t) = externals (ml s') @ xs"
      by (rule externals_append [OF al'])
    then have "(key, filename item, flag) \<in> set (externals (ml t))"
      by (simp add: ext_s')
    then show ?thesis
      using k2 by (simp add: externals_pop_keys)
  qed
  show ?thesis
    using returns registered
    by (auto simp: s' add_external_def externals_pop_keys)
qed

theorem C6_witness:
  "read_name_file (collab_ex table_ex) os_plain (default_load_args ''m.nam'') [] = Inr state_ex
   \<and> load_dis (collab_ex table_ex) state_ex = Returns state_dis
   \<and> set_parameters (collab_ex table_ex) state_dis = Returns state_par
   \<and> ext_unit_dict state_par = take 3 (dict_pop 11 table_ex) @ (31, bin_entry) # drop 4 (dict_pop 11 table_ex)
   \<and> package bin_entry = None \<and> str_in ''data'' (lower (filetype bin_entry))
   \<and> keeps_externals (collab_ex table_ex)
   \<and> (case load (collab_ex table_ex) os_plain (default_load_args ''m.nam'') [] of
         Raises e cs \<Rightarrow> False
       | Returns st \<Rightarrow> externals (ml st) = [(30, ''a.dat'', False), (31, ''b.bin'', True)]
           \<and> files_not_loaded st = [''m.wel'', ''m.xyz''])"
proof -
  have r: "read_name_file (collab_ex table_ex) os_plain (default_load_args ''m.nam'') [] = Inr state_ex"
    by code_simp
  have d: "load_dis (collab_ex table_ex) state_ex = Returns state_dis"
    by code_simp
  have l: "resolve_load_only (arg_load_only (default_load_args ''m.nam'')) (ext_unit_dict state_dis)
           = Inr [''WEL'', ''DATA'', ''RCH'', ''DATA(BINARY)'', ''XYZ'']"
    by code_simp
  have p: "set_parameters (collab_ex table_ex) state_dis = Returns state_par"
    by code_simp
  have e: "ext_unit_dict state_par
           = take 3 (dict_pop 11 table_ex) @ (31, bin_entry) # drop 4 (dict_pop 11 table_ex)"
    by code_simp
  have u: "package bin_entry = None"
    by (simp add: bin_entry_def)
  have b: "str_in ''data'' (lower (filetype bin_entry))"
    by code_simp
  have k: "keeps_externals (collab_ex table_ex)"
    by (simp add: keeps_externals_def collab_ex_def)
  have v: "(case load (collab_ex table_ex) os_plain (default_load_args ''m.nam'') [] of
         Raises e cs \<Rightarrow> False
       | Returns st \<Rightarrow> externals (ml st) = [(30, ''a.dat'', False), (31, ''b.bin'', True)]
           \<and> files_not_loaded st = [''m.wel'', ''m.xyz''])"
    by code_simp
  show ?thesis
    using C6_data_entry_registered [OF r d l p e u b] r d p e u b k v by simp
qed

end
